theory Spec2Isabelle
  imports Complex_Main
begin

section \<open>Python values used by \<open>validation/roundtrip.py\<close>\<close>

text \<open>
  The script works on Python floats (BSON doubles of the profile documents, netCDF values
  converted with \<open>float(x)\<close>).  A float is modelled by its value: a finite double is the
  rational number it denotes, and the three special values are constructors of their own.
  Arithmetic on finite values is exact in the model; the rounding that the hardware applies
  to a sum or product is not modelled.  Comparison follows IEEE: not-a-number is unequal to
  everything, itself included.
\<close>

datatype pyfloat = Fin rat | PInf | NInf | NaN

datatype error = ValueError | IndexError

text \<open>Python's \<open>==\<close> and \<open>!=\<close> on floats.\<close>

fun py_eq :: "pyfloat \<Rightarrow> pyfloat \<Rightarrow> bool" where
  "py_eq NaN y = False"
| "py_eq x NaN = False"
| "py_eq x y = (x = y)"

definition py_ne :: "pyfloat \<Rightarrow> pyfloat \<Rightarrow> bool" where
  "py_ne x y = (\<not> py_eq x y)"

text \<open>
  C's \<open>fmod\<close>: the remainder of the division truncated towards zero, with the sign of the
  dividend.
\<close>

definition fmod :: "rat \<Rightarrow> rat \<Rightarrow> rat" where
  "fmod v w = v - w * of_int (if 0 \<le> v / w then \<lfloor>v / w\<rfloor> else \<lceil>v / w\<rceil>)"

text \<open>
  Python's \<open>x % w\<close> on floats, for a finite divisor \<open>w\<close> other than zero (the script's is the
  literal 360): \<open>fmod\<close>, moved by \<open>w\<close> when its sign differs from the divisor's.  The
  remainder of an infinity or of not-a-number is not-a-number.
\<close>

fun py_mod :: "pyfloat \<Rightarrow> rat \<Rightarrow> pyfloat" where
  "py_mod (Fin v) w =
     (let m = fmod v w in if m \<noteq> 0 \<and> ((w < 0) \<noteq> (m < 0)) then Fin (m + w) else Fin m)"
| "py_mod PInf w = NaN"
| "py_mod NInf w = NaN"
| "py_mod NaN w = NaN"

text \<open>\<open>-1 * x\<close>.\<close>

fun py_neg :: "pyfloat \<Rightarrow> pyfloat" where
  "py_neg (Fin v) = Fin (- v)"
| "py_neg PInf = NInf"
| "py_neg NInf = PInf"
| "py_neg NaN = NaN"

text \<open>
  Exceptions are values: a computation returns \<open>Inl\<close> of the exception raised or \<open>Inr\<close> of
  its result, and \<open>ebind\<close> runs the next statement only after a result.
\<close>

definition ebind :: "error + 'a \<Rightarrow> ('a \<Rightarrow> error + 'b) \<Rightarrow> error + 'b" where
  "ebind r f = (case r of Inl e \<Rightarrow> Inl e | Inr x \<Rightarrow> f x)"

text \<open>
  \<open>xs[i]\<close> for an index that is not negative (the script indexes with the literals 0 and 1
  and with results of \<open>list.index\<close>): IndexError out of range.  The same check is what a
  numpy array applies to each index of \<open>a[i, j]\<close>.
\<close>

definition get :: "'a list \<Rightarrow> nat \<Rightarrow> error + 'a" where
  "get xs i = (if i < length xs then Inr (xs ! i) else Inl IndexError)"

definition get2 :: "'a list list \<Rightarrow> nat \<Rightarrow> nat \<Rightarrow> error + 'a" where
  "get2 a i j = ebind (get a i) (\<lambda>row. get row j)"

definition get3 :: "'a list list list \<Rightarrow> nat \<Rightarrow> nat \<Rightarrow> nat \<Rightarrow> error + 'a" where
  "get3 a i j k = ebind (get a i) (\<lambda>plane. get2 plane j k)"

text \<open>
  \<open>xs.index(v)\<close>: the position of the first element equal to \<open>v\<close>, ValueError when there
  is none.  The equality is a parameter: \<open>py_eq\<close> for floats, \<open>(=)\<close> for strings.
\<close>

fun list_index :: "('a \<Rightarrow> 'a \<Rightarrow> bool) \<Rightarrow> 'a list \<Rightarrow> 'a \<Rightarrow> error + nat" where
  "list_index eq [] v = Inl ValueError"
| "list_index eq (x # xs) v =
     (if eq x v then Inr 0 else ebind (list_index eq xs v) (\<lambda>i. Inr (Suc i)))"

section \<open>numpy.allclose\<close>

text \<open>
  \<open>numpy.isclose\<close> with the default tolerances \<open>rtol = 1e-05\<close> and \<open>atol = 1e-08\<close>: two
  finite values are close when \<open>|a - b| \<le> atol + rtol * |b|\<close>, infinities are close to
  themselves only, and not-a-number is close to not-a-number exactly when \<open>equal_nan\<close>.
\<close>

definition rtol :: rat where
  "rtol = 1 / 100000"

definition atol :: rat where
  "atol = 1 / 100000000"

fun isclose :: "bool \<Rightarrow> pyfloat \<Rightarrow> pyfloat \<Rightarrow> bool" where
  "isclose equal_nan (Fin a) (Fin b) = (\<bar>a - b\<bar> \<le> atol + rtol * \<bar>b\<bar>)"
| "isclose equal_nan NaN NaN = equal_nan"
| "isclose equal_nan PInf PInf = True"
| "isclose equal_nan NInf NInf = True"
| "isclose equal_nan x y = False"

text \<open>
  numpy broadcasts two one-dimensional operands: equal lengths pair up position by
  position, an operand of length one is repeated along the other, and any other pair of
  lengths raises ValueError (operands could not be broadcast together).
\<close>

definition broadcast :: "'a list \<Rightarrow> 'a list \<Rightarrow> error + ('a \<times> 'a) list" where
  "broadcast a b =
     (if length a = length b then Inr (zip a b)
      else if length a = 1 then Inr (map (\<lambda>y. (a ! 0, y)) b)
      else if length b = 1 then Inr (map (\<lambda>x. (x, b ! 0)) a)
      else Inl ValueError)"

definition allclose :: "pyfloat list \<Rightarrow> pyfloat list \<Rightarrow> bool \<Rightarrow> error + bool" where
  "allclose a b equal_nan =
     ebind (broadcast a b) (\<lambda>ps. Inr (list_all (\<lambda>(x, y). isclose equal_nan x y) ps))"

section \<open>Documents, reference files and module state\<close>

text \<open>
  A profile document of the collection \<open>bsose\<close> and a document of \<open>timeseriesMeta\<close>, with
  the keys the script reads (\<open>p_id\<close> and \<open>m_id\<close> stand for the key \<open>_id\<close>, \<open>coordinates\<close>
  for \<open>geolocation.coordinates\<close>).  Every document is taken to hold all of these keys.
\<close>

record profile =
  p_id :: string
  metadata :: "string list"
  coordinates :: "pyfloat list"
  level :: pyfloat
  data_info :: "string list list"
  data :: "pyfloat list list"
  cell_z_size :: pyfloat
  cell_vertical_fraction :: pyfloat
  sea_binary_mask_at_t_locaiton :: pyfloat
  reference_density_profile :: pyfloat

record meta =
  m_id :: string
  cell_area :: pyfloat
  ocean_depth :: pyfloat
  interior_2d_mask :: pyfloat
  depth_r0_to_ref_surface :: pyfloat
  depth_r0_to_bottom :: pyfloat

text \<open>
  An opened netCDF file: the coordinate axes, the file's variable over (time, level,
  latitude, longitude) and the static fields, as nested lists in the order of the
  dimensions.  The script reads \<open>THETA\<close> from the two Theta files and \<open>SALT\<close> from the two
  Salt files only.
\<close>

record dataset =
  XC :: "pyfloat list"
  YC :: "pyfloat list"
  Z :: "pyfloat list"
  THETA :: "pyfloat list list list list"
  SALT :: "pyfloat list list list list"
  rA :: "pyfloat list list"
  Depth :: "pyfloat list list"
  maskInC :: "pyfloat list list"
  rSurfC :: "pyfloat list list"
  rLowC :: "pyfloat list list"
  drF :: "pyfloat list"
  hFacC :: "pyfloat list list list"
  maskC :: "pyfloat list list list"
  rhoRef :: "pyfloat list"

text \<open>The module-level state: the database collections and the four open files.\<close>

record env =
  bsose :: "profile list"
  timeseriesMeta :: "meta list"
  theta13 :: dataset
  theta14 :: dataset
  salt13 :: dataset
  salt14 :: dataset

definition longitudes :: "env \<Rightarrow> pyfloat list" where
  "longitudes e = XC (theta13 e)"

definition latitudes :: "env \<Rightarrow> pyfloat list" where
  "latitudes e = YC (theta13 e)"

definition levels :: "env \<Rightarrow> pyfloat list" where
  "levels e = Z (theta13 e)"

section \<open>One validation pass\<close>

subsection \<open>Selection\<close>

text \<open>
  \<open>$sample\<close> of size one yields one document of a collection that is not empty, chosen by
  the database; the choice is the argument \<open>r\<close>.  \<open>find\<close> yields the documents with the
  given \<open>_id\<close>.  Taking element 0 of an empty result raises IndexError.
\<close>

definition sample :: "profile list \<Rightarrow> nat \<Rightarrow> profile list" where
  "sample coll r = (if coll = [] then [] else [coll ! (r mod length coll)])"

definition find_by_id :: "meta list \<Rightarrow> string \<Rightarrow> meta list" where
  "find_by_id coll key = filter (\<lambda>m. m_id m = key) coll"

definition select :: "env \<Rightarrow> nat \<Rightarrow> error + (profile \<times> meta)" where
  "select e r =
     ebind (get (sample (bsose e) r) 0) (\<lambda>p.
     ebind (get (metadata p) 0) (\<lambda>key.
     ebind (get (find_by_id (timeseriesMeta e) key) 0) (\<lambda>m.
     Inr (p, m))))"

subsection \<open>Variable vectors of the profile\<close>

text \<open>
  \<open>p['data_info'][0].index(name)\<close> inside \<open>try ... except ValueError\<close>: the index of the
  first occurrence, or -1.  An empty \<open>data_info\<close> raises IndexError, which the handler does
  not catch.
\<close>

definition var_index :: "profile \<Rightarrow> string \<Rightarrow> error + int" where
  "var_index p name =
     ebind (get (data_info p) 0) (\<lambda>names.
       case list_index (=) names name of
         Inl ValueError \<Rightarrow> Inr (- 1)
       | Inl e \<Rightarrow> Inl e
       | Inr i \<Rightarrow> Inr (int i))"

definition var_vector :: "profile \<Rightarrow> int \<Rightarrow> error + pyfloat list" where
  "var_vector p idx = (if idx > - 1 then get (data p) (nat idx) else Inr [])"

subsection \<open>Grid indices\<close>

text \<open>
  Lines 29 and 53 to 55: the longitude taken modulo 360, the latitude as it is and the
  level multiplied by -1 are looked up with \<open>list.index\<close> in the axes of the 2013 Theta
  file.
\<close>

definition resolve :: "env \<Rightarrow> pyfloat \<Rightarrow> pyfloat \<Rightarrow> pyfloat \<Rightarrow> error + (nat \<times> nat \<times> nat)" where
  "resolve e lon lat lev =
     ebind (list_index py_eq (longitudes e) (py_mod lon 360)) (\<lambda>lonidx.
     ebind (list_index py_eq (latitudes e) lat) (\<lambda>latidx.
     ebind (list_index py_eq (levels e) (py_neg lev)) (\<lambda>levelidx.
     Inr (lonidx, latidx, levelidx))))"

subsection \<open>Reference timeseries\<close>

text \<open>
  \<open>f[var][:, levelidx, latidx, lonidx]\<close>: the value at the cell for every time step of one
  file, in the order of the time axis.
\<close>

fun extract_point :: "pyfloat list list list list \<Rightarrow> nat \<Rightarrow> nat \<Rightarrow> nat \<Rightarrow> error + pyfloat list" where
  "extract_point [] levelidx latidx lonidx = Inr []"
| "extract_point (slab # rest) levelidx latidx lonidx =
     ebind (get3 slab levelidx latidx lonidx) (\<lambda>v.
     ebind (extract_point rest levelidx latidx lonidx) (\<lambda>vs.
     Inr (v # vs)))"

text \<open>
  The list of the 2013 file followed by the list of the 2014 file.  The conversion of the
  elements by \<open>float(x)\<close> keeps their values.
\<close>

definition timeseries ::
  "pyfloat list list list list \<Rightarrow> pyfloat list list list list \<Rightarrow> nat \<Rightarrow> nat \<Rightarrow> nat \<Rightarrow> error + pyfloat list" where
  "timeseries var13 var14 levelidx latidx lonidx =
     ebind (extract_point var13 levelidx latidx lonidx) (\<lambda>a.
     ebind (extract_point var14 levelidx latidx lonidx) (\<lambda>b.
     Inr (a @ b)))"

subsection \<open>The log message\<close>

text \<open>
  Every failed comparison appends two lines to \<open>logmessage\<close>: the name of the mismatch and
  the profile id.
\<close>

definition add_finding :: "string \<Rightarrow> string \<Rightarrow> string \<Rightarrow> string" where
  "add_finding logmessage what pid =
     logmessage @ what @ ''\<newline>'' @ ''Profile ID: '' @ pid @ ''\<newline>''"

definition compare_series ::
  "string \<Rightarrow> string \<Rightarrow> pyfloat list \<Rightarrow> pyfloat list \<Rightarrow> string \<Rightarrow> error + string" where
  "compare_series pid what observed reference logmessage =
     ebind (allclose observed reference True) (\<lambda>ok.
     Inr (if \<not> ok then add_finding logmessage what pid else logmessage))"

text \<open>
  The nine comparisons of the loop body over one file \<open>f\<close>, in the order of the source:
  the name of the mismatch, the read from the file, and the value of the metadata or
  profile document it is compared with by \<open>!=\<close>.
\<close>

definition static_table ::
  "dataset \<Rightarrow> meta \<Rightarrow> profile \<Rightarrow> nat \<Rightarrow> nat \<Rightarrow> nat \<Rightarrow> (string \<times> (error + pyfloat) \<times> pyfloat) list" where
  "static_table f m p lonidx latidx levelidx =
     [(''Cell area mismatch'', get2 (rA f) latidx lonidx, cell_area m),
      (''ocean_depth mismatch'', get2 (Depth f) latidx lonidx, ocean_depth m),
      (''interior_2d_mask mismatch'', get2 (maskInC f) latidx lonidx, interior_2d_mask m),
      (''depth_r0_to_ref_surface mismatch'', get2 (rSurfC f) latidx lonidx, depth_r0_to_ref_surface m),
      (''depth_r0_to_bottom mismatch'', get2 (rLowC f) latidx lonidx, depth_r0_to_bottom m),
      (''cell_z_size mismatch'', get (drF f) levelidx, cell_z_size p),
      (''cell_vertical_fraction mismatch'', get3 (hFacC f) levelidx latidx lonidx, cell_vertical_fraction p),
      (''sea_binary_mask_at_t_locaiton mismatch'', get3 (maskC f) levelidx latidx lonidx,
         sea_binary_mask_at_t_locaiton p),
      (''reference_density_profile mismatch'', get (rhoRef f) levelidx, reference_density_profile p)]"

fun compare_fields :: "string \<Rightarrow> (string \<times> (error + pyfloat) \<times> pyfloat) list \<Rightarrow> string \<Rightarrow> error + string" where
  "compare_fields pid [] logmessage = Inr logmessage"
| "compare_fields pid ((what, read, stored) # rest) logmessage =
     ebind read (\<lambda>v.
     compare_fields pid rest (if py_ne v stored then add_finding logmessage what pid else logmessage))"

text \<open>\<open>for f in [theta13, theta14, salt13, salt14]\<close>.\<close>

fun static_loop :: "dataset list \<Rightarrow> meta \<Rightarrow> profile \<Rightarrow> nat \<Rightarrow> nat \<Rightarrow> nat \<Rightarrow> string \<Rightarrow> error + string" where
  "static_loop [] m p lonidx latidx levelidx logmessage = Inr logmessage"
| "static_loop (f # fs) m p lonidx latidx levelidx logmessage =
     ebind (compare_fields (p_id p) (static_table f m p lonidx latidx levelidx) logmessage)
       (static_loop fs m p lonidx latidx levelidx)"

subsection \<open>The body of the loop\<close>

definition header :: "profile \<Rightarrow> string" where
  "header p = ''Checking profile id '' @ p_id p @ ''\<newline>''"

text \<open>
  Lines 24 to 111 for a selected profile \<open>p\<close> and its metadata document \<open>m\<close>.  The result
  is the exception that ends the pass, or what the pass prints: \<open>Some\<close> of the argument of
  \<open>print\<close>, or \<open>None\<close> when nothing is printed.
\<close>

definition check :: "env \<Rightarrow> profile \<Rightarrow> meta \<Rightarrow> error + string option" where
  "check e p m =
     (let logmessage = header p; loglen = length logmessage in
      ebind (get (coordinates p) 1) (\<lambda>lat.
      ebind (get (coordinates p) 0) (\<lambda>lon.
      ebind (var_index p ''THETA'') (\<lambda>theta_idx.
      ebind (var_index p ''SALT'') (\<lambda>salt_idx.
      ebind (var_vector p theta_idx) (\<lambda>theta.
      ebind (var_vector p salt_idx) (\<lambda>salt.
      ebind (resolve e lon lat (level p)) (\<lambda>(lonidx, latidx, levelidx).
      ebind (timeseries (THETA (theta13 e)) (THETA (theta14 e)) levelidx latidx lonidx) (\<lambda>theta_timeseries.
      ebind (timeseries (SALT (salt13 e)) (SALT (salt14 e)) levelidx latidx lonidx) (\<lambda>salt_timeseries.
      ebind (compare_series (p_id p) ''Theta mismatch'' theta theta_timeseries logmessage) (\<lambda>logmessage.
      ebind (compare_series (p_id p) ''Salt mismatch'' salt salt_timeseries logmessage) (\<lambda>logmessage.
      ebind (static_loop [theta13 e, theta14 e, salt13 e, salt14 e] m p lonidx latidx levelidx logmessage)
        (\<lambda>logmessage.
      Inr (if length logmessage > loglen then Some logmessage else None))))))))))))))"

definition pass :: "env \<Rightarrow> nat \<Rightarrow> error + string option" where
  "pass e r = ebind (select e r) (\<lambda>(p, m). check e p m)"

section \<open>The selection loop\<close>

text \<open>
  \<open>while True\<close> has no exit of its own: the script runs until an exception leaves the
  loop.  The run is modelled on the choices of the sampler for its first passes: it is
  \<open>Running\<close> when all of them have been processed, and \<open>Aborted\<close> with the exception when a
  pass raised one.  Both carry what has been printed so far, oldest first.
\<close>

datatype run_state = Running "string list" | Aborted error "string list"

fun run :: "env \<Rightarrow> nat list \<Rightarrow> string list \<Rightarrow> run_state" where
  "run e [] printed = Running printed"
| "run e (r # rs) printed =
     (case pass e r of
        Inl err \<Rightarrow> Aborted err printed
      | Inr None \<Rightarrow> run e rs printed
      | Inr (Some logmessage) \<Rightarrow> run e rs (printed @ [logmessage]))"

section \<open>The findings of a pass\<close>

text \<open>
  The script keeps no list of findings: it appends text to \<open>logmessage\<close>.  The functions
  of this section compute, along the same statements, the names of the mismatches a pass
  appends, in order; \<open>render\<close> is the text they stand for.  That \<open>check\<close> prints the header
  followed by exactly this text is proved below (\<open>check_findings\<close>).
\<close>

definition finding_text :: "string \<Rightarrow> string \<Rightarrow> string" where
  "finding_text pid what = what @ ''\<newline>'' @ ''Profile ID: '' @ pid @ ''\<newline>''"

definition render :: "string \<Rightarrow> string list \<Rightarrow> string" where
  "render pid fs = concat (map (finding_text pid) fs)"

definition series_finding :: "string \<Rightarrow> pyfloat list \<Rightarrow> pyfloat list \<Rightarrow> error + string list" where
  "series_finding what observed reference =
     ebind (allclose observed reference True) (\<lambda>ok. Inr (if \<not> ok then [what] else []))"

fun table_findings :: "(string \<times> (error + pyfloat) \<times> pyfloat) list \<Rightarrow> error + string list" where
  "table_findings [] = Inr []"
| "table_findings ((what, read, stored) # rest) =
     ebind read (\<lambda>v.
     ebind (table_findings rest) (\<lambda>fs.
     Inr ((if py_ne v stored then [what] else []) @ fs)))"

fun files_findings :: "dataset list \<Rightarrow> meta \<Rightarrow> profile \<Rightarrow> nat \<Rightarrow> nat \<Rightarrow> nat \<Rightarrow> error + string list" where
  "files_findings [] m p lonidx latidx levelidx = Inr []"
| "files_findings (f # fs) m p lonidx latidx levelidx =
     ebind (table_findings (static_table f m p lonidx latidx levelidx)) (\<lambda>a.
     ebind (files_findings fs m p lonidx latidx levelidx) (\<lambda>b.
     Inr (a @ b)))"

definition findings :: "env \<Rightarrow> profile \<Rightarrow> meta \<Rightarrow> error + string list" where
  "findings e p m =
     ebind (get (coordinates p) 1) (\<lambda>lat.
     ebind (get (coordinates p) 0) (\<lambda>lon.
     ebind (var_index p ''THETA'') (\<lambda>theta_idx.
     ebind (var_index p ''SALT'') (\<lambda>salt_idx.
     ebind (var_vector p theta_idx) (\<lambda>theta.
     ebind (var_vector p salt_idx) (\<lambda>salt.
     ebind (resolve e lon lat (level p)) (\<lambda>(lonidx, latidx, levelidx).
     ebind (timeseries (THETA (theta13 e)) (THETA (theta14 e)) levelidx latidx lonidx) (\<lambda>theta_timeseries.
     ebind (timeseries (SALT (salt13 e)) (SALT (salt14 e)) levelidx latidx lonidx) (\<lambda>salt_timeseries.
     ebind (series_finding ''Theta mismatch'' theta theta_timeseries) (\<lambda>tf.
     ebind (series_finding ''Salt mismatch'' salt salt_timeseries) (\<lambda>sf.
     ebind (files_findings [theta13 e, theta14 e, salt13 e, salt14 e] m p lonidx latidx levelidx) (\<lambda>ff.
     Inr (tf @ sf @ ff)))))))))))))"

text \<open>Lines 33 to 50 for one variable: the index of its name, then its vector.\<close>

definition variable_vector :: "profile \<Rightarrow> string \<Rightarrow> error + pyfloat list" where
  "variable_vector p name = ebind (var_index p name) (var_vector p)"

text \<open>\<open>v in xs\<close> for a fresh float \<open>v\<close>: some element of the list is equal to it.\<close>

definition py_in :: "pyfloat \<Rightarrow> pyfloat list \<Rightarrow> bool" where
  "py_in v xs = list_ex (\<lambda>x. py_eq x v) xs"

text \<open>
  The indices lie inside one time step \<open>slab\<close> of a variable over (level, latitude,
  longitude).
\<close>

definition in_grid :: "pyfloat list list list \<Rightarrow> nat \<Rightarrow> nat \<Rightarrow> nat \<Rightarrow> bool" where
  "in_grid slab levelidx latidx lonidx \<longleftrightarrow>
     levelidx < length slab \<and> latidx < length (slab ! levelidx)
     \<and> lonidx < length (slab ! levelidx ! latidx)"

text \<open>The finding of one comparison by \<open>!=\<close>: the name of the mismatch, or nothing.\<close>

definition differs :: "string \<Rightarrow> pyfloat \<Rightarrow> pyfloat \<Rightarrow> string list" where
  "differs what v stored = (if py_eq v stored then [] else [what])"


section \<open>A small reference grid and its documents\<close>

text \<open>
  Two longitudes (0.5 and 299.5), one latitude (-60.5) and two levels (-5 and -25).  The
  files hold the given values of their variable at the cell of longitude 299.5 and level
  -25 and zero elsewhere; \<open>dep\<close> is the ocean depth of that cell.
\<close>

definition ex_grid :: "pyfloat list \<Rightarrow> pyfloat list \<Rightarrow> pyfloat \<Rightarrow> dataset" where
  "ex_grid th sa dep =
     \<lparr>XC = [Fin (1 / 2), Fin (599 / 2)], YC = [Fin (- 121 / 2)], Z = [Fin (- 5), Fin (- 25)],
      THETA = map (\<lambda>v. [[[Fin 0, Fin 0]], [[Fin 0, v]]]) th,
      SALT = map (\<lambda>v. [[[Fin 0, Fin 0]], [[Fin 0, v]]]) sa,
      rA = [[Fin 50, Fin 100]], Depth = [[Fin 0, dep]], maskInC = [[Fin 0, Fin 1]],
      rSurfC = [[Fin 0, Fin 0]], rLowC = [[Fin 0, Fin (- 4000)]], drF = [Fin 5, Fin 10],
      hFacC = [[[Fin 0, Fin 1]], [[Fin 0, Fin 1]]], maskC = [[[Fin 0, Fin 1]], [[Fin 0, Fin 1]]],
      rhoRef = [Fin 1025, Fin 1027]\<rparr>"

text \<open>
  A profile at latitude -60.5 and level 25 with the given identifier, longitude, variable
  names and vectors, and the metadata document it refers to, with the given ocean depth.
\<close>

definition ex_profile :: "string \<Rightarrow> pyfloat \<Rightarrow> string list \<Rightarrow> pyfloat list list \<Rightarrow> profile" where
  "ex_profile pid lon names vectors =
     \<lparr>p_id = pid, metadata = [''m1''], coordinates = [lon, Fin (- 121 / 2)], level = Fin 25,
      data_info = [names], data = vectors, cell_z_size = Fin 10, cell_vertical_fraction = Fin 1,
      sea_binary_mask_at_t_locaiton = Fin 1, reference_density_profile = Fin 1027\<rparr>"

definition ex_meta :: "pyfloat \<Rightarrow> meta" where
  "ex_meta dep =
     \<lparr>m_id = ''m1'', cell_area = Fin 100, ocean_depth = dep, interior_2d_mask = Fin 1,
      depth_r0_to_ref_surface = Fin 0, depth_r0_to_bottom = Fin (- 4000)\<rparr>"

text \<open>
  The module state: one time step in each file (THETA 1 then 2, SALT 34 then 35), ocean
  depth 4000 in every file but the 2014 Theta file, whose depth is \<open>dep14\<close>.
\<close>

definition ex_env :: "profile list \<Rightarrow> pyfloat \<Rightarrow> env" where
  "ex_env profiles dep14 =
     \<lparr>bsose = profiles, timeseriesMeta = [ex_meta (Fin 4000)],
      theta13 = ex_grid [Fin 1] [] (Fin 4000), theta14 = ex_grid [Fin 2] [] dep14,
      salt13 = ex_grid [] [Fin 34] (Fin 4000), salt14 = ex_grid [] [Fin 35] (Fin 4000)\<rparr>"

text \<open>A profile that agrees with the grid, at longitude -60.5.\<close>

definition ex_good :: profile where
  "ex_good = ex_profile ''p1'' (Fin (- 121 / 2)) [''THETA'', ''SALT''] [[Fin 1, Fin 2], [Fin 34, Fin 35]]"

text \<open>
  Three more profiles at the same latitude and level: one without the variable \<open>THETA\<close>,
  one at longitude 10, which is not on the grid, and one whose second \<open>SALT\<close> value differs
  from the grid.
\<close>

definition ex_no_theta :: profile where
  "ex_no_theta = ex_profile ''p3'' (Fin (- 121 / 2)) [''SALT''] [[Fin 34, Fin 35]]"


definition ex_bad_salt :: profile where
  "ex_bad_salt = ex_profile ''p2'' (Fin (- 121 / 2)) [''THETA'', ''SALT''] [[Fin 1, Fin 2], [Fin 34, Fin 36]]"

section \<open>Basic facts\<close>

lemma ebind_Inl [simp]: "ebind (Inl err) f = Inl err"
  by (simp add: ebind_def)

lemma ebind_Inr [simp]: "ebind (Inr x) f = f x"
  by (simp add: ebind_def)

lemma ebind_eq_Inr: "ebind r f = Inr y \<longleftrightarrow> (\<exists>x. r = Inr x \<and> f x = Inr y)"
  by (cases r) simp_all

lemma ebind_eq_Inl: "ebind r f = Inl err \<longleftrightarrow> r = Inl err \<or> (\<exists>x. r = Inr x \<and> f x = Inl err)"
  by (cases r) simp_all

lemma add_finding_text: "add_finding logmessage what pid = logmessage @ finding_text pid what"
  by (simp add: add_finding_def finding_text_def)

lemma render_Nil [simp]: "render pid [] = []"
  by (simp add: render_def)

lemma render_append [simp]: "render pid (fs @ gs) = render pid fs @ render pid gs"
  by (simp add: render_def)

lemma render_single [simp]: "render pid [what] = finding_text pid what"
  by (simp add: render_def)

lemma render_empty_iff [simp]: "render pid fs = [] \<longleftrightarrow> fs = []"
  by (cases fs) (simp_all add: render_def finding_text_def)

lemma compare_fields_findings:
  "compare_fields pid tbl logmessage =
     (case table_findings tbl of Inl err \<Rightarrow> Inl err | Inr fs \<Rightarrow> Inr (logmessage @ render pid fs))"
proof (induction tbl arbitrary: logmessage)
  case Nil
  show ?case by simp
next
  case (Cons row rest)
  obtain what read stored where row: "row = (what, read, stored)"
    by (cases row) auto
  show ?case
  proof (cases read)
    case (Inl err)
    with row show ?thesis by simp
  next
    case (Inr v)
    with row Cons show ?thesis
      by (cases "table_findings rest") (simp_all add: add_finding_text)
  qed
qed

lemma static_loop_findings:
  "static_loop fs m p lonidx latidx levelidx logmessage =
     (case files_findings fs m p lonidx latidx levelidx of
        Inl err \<Rightarrow> Inl err
      | Inr ff \<Rightarrow> Inr (logmessage @ render (p_id p) ff))"
proof (induction fs arbitrary: logmessage)
  case Nil
  show ?case by simp
next
  case (Cons f fs)
  show ?case
  proof (cases "table_findings (static_table f m p lonidx latidx levelidx)")
    case (Inl err)
    then show ?thesis by (simp add: compare_fields_findings)
  next
    case (Inr a)
    then show ?thesis
      by (cases "files_findings fs m p lonidx latidx levelidx")
        (simp_all add: compare_fields_findings Cons)
  qed
qed

lemma compare_series_finding:
  "compare_series pid what observed reference logmessage =
     (case series_finding what observed reference of
        Inl err \<Rightarrow> Inl err
      | Inr sf \<Rightarrow> Inr (logmessage @ render pid sf))"
  by (cases "allclose observed reference True")
    (simp_all add: compare_series_def series_finding_def add_finding_text)

lemma check_findings:
  "check e p m =
     (case findings e p m of
        Inl err \<Rightarrow> Inl err
      | Inr fs \<Rightarrow> Inr (if fs = [] then None else Some (header p @ render (p_id p) fs)))"
  unfolding check_def findings_def Let_def
  by (auto simp: ebind_def compare_series_finding static_loop_findings split: sum.splits prod.splits)


lemma list_index_Inr:
  "list_index eq xs v = Inr i \<Longrightarrow> i < length xs \<and> eq (xs ! i) v \<and> (\<forall>j<i. \<not> eq (xs ! j) v)"
proof (induction xs arbitrary: i)
  case Nil
  then show ?case by simp
next
  case (Cons x xs)
  show ?case
  proof (cases "eq x v")
    case True
    with Cons.prems show ?thesis by simp
  next
    case False
    with Cons.prems obtain i' where i': "list_index eq xs v = Inr i'" "i = Suc i'"
      by (auto simp: ebind_eq_Inr)
    from Cons.IH [OF i'(1)] False i'(2) show ?thesis
      by (auto simp: less_Suc_eq_0_disj)
  qed
qed

lemma list_index_Inl:
  "list_index eq xs v = Inl err \<Longrightarrow> err = ValueError \<and> (\<forall>x\<in>set xs. \<not> eq x v)"
  by (induction xs) (auto simp: ebind_eq_Inl split: if_splits)

lemma list_index_first:
  "\<forall>x\<in>set pre. \<not> eq x v \<Longrightarrow> eq y v \<Longrightarrow> list_index eq (pre @ y # post) v = Inr (length pre)"
  by (induction pre) simp_all





lemma get3_in_grid:
  "get3 slab k j i = (if in_grid slab k j i then Inr (slab ! k ! j ! i) else Inl IndexError)"
  by (simp add: get3_def get2_def get_def in_grid_def)

lemma extract_point_in_grid:
  "list_all (\<lambda>slab. in_grid slab k j i) var \<Longrightarrow>
     extract_point var k j i = Inr (map (\<lambda>slab. slab ! k ! j ! i) var)"
  by (induction var) (simp_all add: get3_in_grid)

lemma extract_point_outside:
  "\<not> list_all (\<lambda>slab. in_grid slab k j i) var \<Longrightarrow> extract_point var k j i = Inl IndexError"
proof (induction var)
  case Nil
  then show ?case by simp
next
  case (Cons slab var)
  show ?case
  proof (cases "in_grid slab k j i")
    case True
    with Cons show ?thesis by (simp add: get3_in_grid)
  next
    case False
    then show ?thesis by (simp add: get3_in_grid)
  qed
qed


lemma py_in_iff: "py_in v xs \<longleftrightarrow> (\<exists>x\<in>set xs. py_eq x v)"
  by (simp add: py_in_def list_ex_iff)


lemma list_index_missing:
  "\<not> py_in v xs \<Longrightarrow> list_index py_eq xs v = Inl ValueError"
  by (cases "list_index py_eq xs v") (auto simp: py_in_iff dest: list_index_Inl list_index_Inr)


lemma render_text:
  "render pid fs = concat (map (\<lambda>what. what @ ''\<newline>'' @ ''Profile ID: '' @ pid @ ''\<newline>'') fs)"
  by (induction fs) (simp_all add: render_def finding_text_def)

lemma run_printed:
  "run e rs printed = Running out \<Longrightarrow>
     out = printed @ concat (map (\<lambda>r. case pass e r of Inr (Some block) \<Rightarrow> [block] | _ \<Rightarrow> []) rs)"
proof (induction rs arbitrary: printed)
  case Nil
  then show ?case by simp
next
  case (Cons r rs)
  show ?case
  proof (cases "pass e r")
    case (Inl err)
    with Cons.prems show ?thesis by simp
  next
    case (Inr res)
    show ?thesis
    proof (cases res)
      case None
      with Inr Cons.prems have "run e rs printed = Running out"
        by simp
      from Cons.IH [OF this] Inr None show ?thesis
        by simp
    next
      case (Some block)
      with Inr Cons.prems have "run e rs (printed @ [block]) = Running out"
        by simp
      from Cons.IH [OF this] Inr Some show ?thesis
        by simp
    qed
  qed
qed

lemma table_findings_static:
  "table_findings (static_table f m p lonidx latidx levelidx) = Inr fs \<longleftrightarrow>
     (\<exists>a d mi rs rl dz hf mc rr.
        get2 (rA f) latidx lonidx = Inr a \<and> get2 (Depth f) latidx lonidx = Inr d
        \<and> get2 (maskInC f) latidx lonidx = Inr mi \<and> get2 (rSurfC f) latidx lonidx = Inr rs
        \<and> get2 (rLowC f) latidx lonidx = Inr rl \<and> get (drF f) levelidx = Inr dz
        \<and> get3 (hFacC f) levelidx latidx lonidx = Inr hf
        \<and> get3 (maskC f) levelidx latidx lonidx = Inr mc \<and> get (rhoRef f) levelidx = Inr rr
        \<and> fs = differs ''Cell area mismatch'' a (cell_area m)
             @ differs ''ocean_depth mismatch'' d (ocean_depth m)
             @ differs ''interior_2d_mask mismatch'' mi (interior_2d_mask m)
             @ differs ''depth_r0_to_ref_surface mismatch'' rs (depth_r0_to_ref_surface m)
             @ differs ''depth_r0_to_bottom mismatch'' rl (depth_r0_to_bottom m)
             @ differs ''cell_z_size mismatch'' dz (cell_z_size p)
             @ differs ''cell_vertical_fraction mismatch'' hf (cell_vertical_fraction p)
             @ differs ''sea_binary_mask_at_t_locaiton mismatch'' mc (sea_binary_mask_at_t_locaiton p)
             @ differs ''reference_density_profile mismatch'' rr (reference_density_profile p))"
proof -
  have step: "ebind read (\<lambda>v. ebind rest (\<lambda>fs. Inr ((if py_ne v stored then [what] else []) @ fs))) = Inr out
      \<longleftrightarrow> (\<exists>v fs. read = Inr v \<and> rest = Inr fs \<and> out = differs what v stored @ fs)"
    for read :: "error + pyfloat" and rest :: "error + string list" and stored what out
    by (cases read; cases rest) (auto simp: differs_def py_ne_def)
  show ?thesis
    unfolding static_table_def table_findings.simps step
    by (simp only: ex_simps simp_thms append_Nil2 sum.inject) blast
qed


lemma files_findings_blocks:
  "files_findings fs m p lonidx latidx levelidx = Inr ff \<Longrightarrow>
     \<exists>blocks. length blocks = length fs \<and> ff = concat blocks
       \<and> (\<forall>n<length fs. table_findings (static_table (fs ! n) m p lonidx latidx levelidx) = Inr (blocks ! n))"
proof (induction fs arbitrary: ff)
  case Nil
  then show ?case by simp
next
  case (Cons f fs)
  from Cons.prems obtain a b where
    a: "table_findings (static_table f m p lonidx latidx levelidx) = Inr a"
    and b: "files_findings fs m p lonidx latidx levelidx = Inr b" and ff: "ff = a @ b"
    by (auto simp: ebind_eq_Inr)
  from Cons.IH [OF b] obtain blocks where
    blocks: "length blocks = length fs" "b = concat blocks"
    "\<forall>n<length fs. table_findings (static_table (fs ! n) m p lonidx latidx levelidx) = Inr (blocks ! n)"
    by blast
  have "\<forall>n<length (f # fs).
      table_findings (static_table ((f # fs) ! n) m p lonidx latidx levelidx) = Inr ((a # blocks) ! n)"
    using a blocks(3) by (auto simp: nth_Cons split: nat.splits)
  with blocks(1,2) ff show ?case
    by (intro exI [of _ "a # blocks"]) simp
qed


section \<open>Grid indices of a profile\<close>



section \<open>The reference timeseries\<close>

text \<open>
  Claim C5.  For indices that lie inside every time step of both files, the reference
  timeseries is the list of the values at the cell over the time steps of the 2013 file,
  in their order, followed by those of the 2014 file; for other indices the reads raise
  IndexError.
\<close>

theorem timeseries_chronological:
  "(list_all (\<lambda>slab. in_grid slab levelidx latidx lonidx) (var13 @ var14) \<longrightarrow>
      timeseries var13 var14 levelidx latidx lonidx
        = Inr (map (\<lambda>slab. slab ! levelidx ! latidx ! lonidx) var13
               @ map (\<lambda>slab. slab ! levelidx ! latidx ! lonidx) var14))
   \<and> (\<not> list_all (\<lambda>slab. in_grid slab levelidx latidx lonidx) (var13 @ var14) \<longrightarrow>
      timeseries var13 var14 levelidx latidx lonidx = Inl IndexError)"
proof (cases "list_all (\<lambda>slab. in_grid slab levelidx latidx lonidx) var13")
  case True
  then show ?thesis
    by (cases "list_all (\<lambda>slab. in_grid slab levelidx latidx lonidx) var14")
      (simp_all add: timeseries_def extract_point_in_grid extract_point_outside)
next
  case False
  then show ?thesis
    by (simp add: timeseries_def extract_point_outside)
qed

theorem timeseries_chronological_witness:
  "timeseries (THETA (ex_grid [Fin 1, Fin 2] [] (Fin 4000))) (THETA (ex_grid [Fin 3] [] (Fin 4000))) 1 0 1
     = Inr [Fin 1, Fin 2, Fin 3]"
proof -
  have h: "list_all (\<lambda>slab. in_grid slab 1 0 1)
      (THETA (ex_grid [Fin 1, Fin 2] [] (Fin 4000)) @ THETA (ex_grid [Fin 3] [] (Fin 4000)))"
    by (simp add: ex_grid_def in_grid_def)
  from timeseries_chronological [of 1 0 1 "THETA (ex_grid [Fin 1, Fin 2] [] (Fin 4000))"
      "THETA (ex_grid [Fin 3] [] (Fin 4000))"] h
  show ?thesis
    by (simp add: ex_grid_def)
qed

section \<open>Comparison of the series\<close>



section \<open>Extraction of the variable vectors\<close>

text \<open>
  Claim C10.  When the list of variable names \<open>data_info[0]\<close> holds a name more than once,
  the index found for that name is the position of its first occurrence, and the vector
  used is the one at that position of \<open>data\<close>:
  \<open>pre\<close> are the names before that occurrence and \<open>post\<close> the names after it.  Neither the
  names after the first occurrence nor the vectors at any other position have an effect on
  the vector extracted.
\<close>

theorem first_occurrence_extraction:
  assumes "data_info p = (pre @ name # post) # others" and "name \<notin> set pre"
  shows "var_index p name = Inr (int (length pre))
    \<and> var_vector p (int (length pre)) = get (data p) (length pre)
    \<and> variable_vector p name = get (data p) (length pre)
    \<and> (\<forall>post' j vs. j \<noteq> length pre \<longrightarrow>
          variable_vector (p\<lparr>data_info := (pre @ name # post') # others, data := (data p)[j := vs]\<rparr>) name
            = variable_vector p name)"
proof -
  have idx: "list_index (=) (pre @ name # post') name = Inr (length pre)" for post'
    using assms(2) by (intro list_index_first) auto
  have vi: "var_index p name = Inr (int (length pre))"
    using assms(1) idx by (simp add: var_index_def get_def)
  have v0: "var_vector p (int (length pre)) = get (data p) (length pre)"
    by (simp add: var_vector_def)
  have vv: "variable_vector p name = get (data p) (length pre)"
    by (simp add: variable_vector_def vi var_vector_def)
  have "variable_vector (p\<lparr>data_info := (pre @ name # post') # others, data := (data p)[j := vs]\<rparr>) name
      = get (data p) (length pre)" if "j \<noteq> length pre" for post' j vs
    using that idx by (simp add: variable_vector_def var_index_def var_vector_def get_def)
  with vi v0 vv show ?thesis by simp
qed

theorem first_occurrence_extraction_witness:
  "variable_vector (ex_profile ''p1'' (Fin 0) [''SALT'', ''THETA'', ''THETA''] [[Fin 34], [Fin 1], [Fin 2]]) ''THETA''
     = Inr [Fin 1]"
proof -
  have h1: "data_info (ex_profile ''p1'' (Fin 0) [''SALT'', ''THETA'', ''THETA''] [[Fin 34], [Fin 1], [Fin 2]])
      = ([''SALT''] @ ''THETA'' # [''THETA'']) # []"
    by (simp add: ex_profile_def)
  have h2: "''THETA'' \<notin> set [''SALT'']"
    by simp
  from first_occurrence_extraction [OF h1 h2] show ?thesis
    by (simp add: ex_profile_def get_def)
qed

section \<open>Sequences of different lengths\<close>

text \<open>
  Claim C3.  The profile \<open>ex_no_theta\<close> has no variable \<open>THETA\<close>, so its vector is the
  empty list, while the reference timeseries of its cell has two elements.  The comparison
  of the two by \<open>numpy.allclose\<close> raises ValueError, and so does the pass: no finding is
  appended.  Against a reference of one element the empty list compares as close, and a
  list of one element is compared with every element of a longer one.
\<close>

theorem absent_variable_raises:
  "variable_vector ex_no_theta ''THETA'' = Inr []
   \<and> timeseries (THETA (theta13 (ex_env [] (Fin 4000)))) (THETA (theta14 (ex_env [] (Fin 4000)))) 1 0 1
       = Inr [Fin 1, Fin 2]
   \<and> allclose [] [Fin 1, Fin 2] True = Inl ValueError
   \<and> check (ex_env [] (Fin 4000)) ex_no_theta (ex_meta (Fin 4000)) = Inl ValueError
   \<and> allclose [] [Fin 1] True = Inr True
   \<and> allclose [Fin 1] [Fin 1, Fin 1] True = Inr True"
  by code_simp

section \<open>The report\<close>

text \<open>
  Claim C8, as stated.  The ocean depth of the metadata document differs from the depth in
  each of the four files, and nothing else differs: the pass has four findings of the one
  kind, and the block printed has the header and eight more lines, four of them the line
  of that kind of mismatch.
\<close>

theorem report_block_counterexample:
  "findings (ex_env [] (Fin 4000)) ex_good (ex_meta (Fin 4001))
     = Inr [''ocean_depth mismatch'', ''ocean_depth mismatch'', ''ocean_depth mismatch'', ''ocean_depth mismatch'']
   \<and> check (ex_env [] (Fin 4000)) ex_good (ex_meta (Fin 4001))
     = Inr (Some ''Checking profile id p1\<newline>ocean_depth mismatch\<newline>Profile ID: p1\<newline>ocean_depth mismatch\<newline>Profile ID: p1\<newline>ocean_depth mismatch\<newline>Profile ID: p1\<newline>ocean_depth mismatch\<newline>Profile ID: p1\<newline>'')"
  by code_simp

text \<open>
  Claim C8, amended.  A pass that raises no exception prints nothing when it has no
  finding.  Otherwise it prints one block: the line \<open>Checking profile id\<close> with the
  identifier, then for each finding in order the line of the mismatch followed by the line
  \<open>Profile ID:\<close> with the identifier.  While the loop runs, what it has printed is the
  blocks of the passes that had a finding, in the order of the passes.
\<close>

theorem report_block:
  "(\<forall>out. check e p m = Inr out \<longrightarrow>
      (\<exists>fs. findings e p m = Inr fs
         \<and> out = (if fs = [] then None
                  else Some (''Checking profile id '' @ p_id p @ ''\<newline>''
                    @ concat (map (\<lambda>what. what @ ''\<newline>'' @ ''Profile ID: '' @ p_id p @ ''\<newline>'') fs)))))
   \<and> (\<forall>out. run e rs [] = Running out \<longrightarrow>
        out = concat (map (\<lambda>r. case pass e r of Inr (Some block) \<Rightarrow> [block] | _ \<Rightarrow> []) rs))"
proof (intro conjI allI impI)
  fix out
  assume "check e p m = Inr out"
  then show "\<exists>fs. findings e p m = Inr fs
         \<and> out = (if fs = [] then None
                  else Some (''Checking profile id '' @ p_id p @ ''\<newline>''
                    @ concat (map (\<lambda>what. what @ ''\<newline>'' @ ''Profile ID: '' @ p_id p @ ''\<newline>'') fs)))"
    by (cases "findings e p m")
      (auto simp: check_findings header_def render_text)
next
  fix out
  assume "run e rs [] = Running out"
  from run_printed [OF this]
  show "out = concat (map (\<lambda>r. case pass e r of Inr (Some block) \<Rightarrow> [block] | _ \<Rightarrow> []) rs)"
    by simp
qed

theorem report_block_witness:
  "run (ex_env [ex_good, ex_bad_salt] (Fin 4000)) [0, 1, 2] []
     = Running [''Checking profile id p2\<newline>Salt mismatch\<newline>Profile ID: p2\<newline>'']"
proof -
  have p: "pass (ex_env [ex_good, ex_bad_salt] (Fin 4000)) 0 = Inr None"
    "pass (ex_env [ex_good, ex_bad_salt] (Fin 4000)) 1
       = Inr (Some ''Checking profile id p2\<newline>Salt mismatch\<newline>Profile ID: p2\<newline>'')"
    "pass (ex_env [ex_good, ex_bad_salt] (Fin 4000)) 2 = Inr None"
    by code_simp+
  then obtain out where r: "run (ex_env [ex_good, ex_bad_salt] (Fin 4000)) [0, 1, 2] [] = Running out"
    by simp
  with report_block [of "ex_env [ex_good, ex_bad_salt] (Fin 4000)" ex_good "ex_meta (Fin 4000)" "[0, 1, 2]"] p
  show ?thesis
    by simp
qed

section \<open>A profile off the grid\<close>




section \<open>Comparison of the static fields\<close>




section \<open>The static fields, file by file\<close>

text \<open>
  Claim C7.  The loop over the files appends to the log the findings of one file after
  the other, in the order of the list (in the script: the 2013 and 2014 Theta files, then
  the 2013 and 2014 Salt files).  The findings of a file depend on the values of that
  file alone: each of the nine static fields has one finding in the file's part when the
  value of the file differs from the stored one, and none when the two are equal, and the
  part holds no other finding.  So a stored ocean depth that equals the depth in one file
  and differs from it in another has exactly one finding, in the part of the second file.
\<close>

theorem static_fields_per_file:
  assumes "static_loop fs m p lonidx latidx levelidx logmessage = Inr logmessage'"
  shows "\<exists>blocks. length blocks = length fs
    \<and> logmessage' = logmessage @ render (p_id p) (concat blocks)
    \<and> (\<forall>n<length fs. \<exists>a d mi rs rl dz hf mc rr.
          get2 (rA (fs ! n)) latidx lonidx = Inr a \<and> get2 (Depth (fs ! n)) latidx lonidx = Inr d
          \<and> get2 (maskInC (fs ! n)) latidx lonidx = Inr mi \<and> get2 (rSurfC (fs ! n)) latidx lonidx = Inr rs
          \<and> get2 (rLowC (fs ! n)) latidx lonidx = Inr rl \<and> get (drF (fs ! n)) levelidx = Inr dz
          \<and> get3 (hFacC (fs ! n)) levelidx latidx lonidx = Inr hf
          \<and> get3 (maskC (fs ! n)) levelidx latidx lonidx = Inr mc
          \<and> get (rhoRef (fs ! n)) levelidx = Inr rr
          \<and> count_list (blocks ! n) ''Cell area mismatch'' = (if py_eq a (cell_area m) then 0 else 1)
          \<and> count_list (blocks ! n) ''ocean_depth mismatch'' = (if py_eq d (ocean_depth m) then 0 else 1)
          \<and> count_list (blocks ! n) ''interior_2d_mask mismatch''
              = (if py_eq mi (interior_2d_mask m) then 0 else 1)
          \<and> count_list (blocks ! n) ''depth_r0_to_ref_surface mismatch''
              = (if py_eq rs (depth_r0_to_ref_surface m) then 0 else 1)
          \<and> count_list (blocks ! n) ''depth_r0_to_bottom mismatch''
              = (if py_eq rl (depth_r0_to_bottom m) then 0 else 1)
          \<and> count_list (blocks ! n) ''cell_z_size mismatch'' = (if py_eq dz (cell_z_size p) then 0 else 1)
          \<and> count_list (blocks ! n) ''cell_vertical_fraction mismatch''
              = (if py_eq hf (cell_vertical_fraction p) then 0 else 1)
          \<and> count_list (blocks ! n) ''sea_binary_mask_at_t_locaiton mismatch''
              = (if py_eq mc (sea_binary_mask_at_t_locaiton p) then 0 else 1)
          \<and> count_list (blocks ! n) ''reference_density_profile mismatch''
              = (if py_eq rr (reference_density_profile p) then 0 else 1)
          \<and> length (blocks ! n)
              = count_list (blocks ! n) ''Cell area mismatch''
                + count_list (blocks ! n) ''ocean_depth mismatch''
                + count_list (blocks ! n) ''interior_2d_mask mismatch''
                + count_list (blocks ! n) ''depth_r0_to_ref_surface mismatch''
                + count_list (blocks ! n) ''depth_r0_to_bottom mismatch''
                + count_list (blocks ! n) ''cell_z_size mismatch''
                + count_list (blocks ! n) ''cell_vertical_fraction mismatch''
                + count_list (blocks ! n) ''sea_binary_mask_at_t_locaiton mismatch''
                + count_list (blocks ! n) ''reference_density_profile mismatch'')"
proof -
  from assms obtain ff where
    ff: "files_findings fs m p lonidx latidx levelidx = Inr ff"
    and log: "logmessage' = logmessage @ render (p_id p) ff"
    by (cases "files_findings fs m p lonidx latidx levelidx")
      (simp_all add: static_loop_findings)
  from files_findings_blocks [OF ff] obtain blocks where
    len: "length blocks = length fs" and cat: "ff = concat blocks"
    and each: "\<forall>n<length fs.
      table_findings (static_table (fs ! n) m p lonidx latidx levelidx) = Inr (blocks ! n)"
    by blast
  have "\<exists>a d mi rs rl dz hf mc rr.
          get2 (rA (fs ! n)) latidx lonidx = Inr a \<and> get2 (Depth (fs ! n)) latidx lonidx = Inr d
          \<and> get2 (maskInC (fs ! n)) latidx lonidx = Inr mi \<and> get2 (rSurfC (fs ! n)) latidx lonidx = Inr rs
          \<and> get2 (rLowC (fs ! n)) latidx lonidx = Inr rl \<and> get (drF (fs ! n)) levelidx = Inr dz
          \<and> get3 (hFacC (fs ! n)) levelidx latidx lonidx = Inr hf
          \<and> get3 (maskC (fs ! n)) levelidx latidx lonidx = Inr mc
          \<and> get (rhoRef (fs ! n)) levelidx = Inr rr
          \<and> count_list (blocks ! n) ''Cell area mismatch'' = (if py_eq a (cell_area m) then 0 else 1)
          \<and> count_list (blocks ! n) ''ocean_depth mismatch'' = (if py_eq d (ocean_depth m) then 0 else 1)
          \<and> count_list (blocks ! n) ''interior_2d_mask mismatch''
              = (if py_eq mi (interior_2d_mask m) then 0 else 1)
          \<and> count_list (blocks ! n) ''depth_r0_to_ref_surface mismatch''
              = (if py_eq rs (depth_r0_to_ref_surface m) then 0 else 1)
          \<and> count_list (blocks ! n) ''depth_r0_to_bottom mismatch''
              = (if py_eq rl (depth_r0_to_bottom m) then 0 else 1)
          \<and> count_list (blocks ! n) ''cell_z_size mismatch'' = (if py_eq dz (cell_z_size p) then 0 else 1)
          \<and> count_list (blocks ! n) ''cell_vertical_fraction mismatch''
              = (if py_eq hf (cell_vertical_fraction p) then 0 else 1)
          \<and> count_list (blocks ! n) ''sea_binary_mask_at_t_locaiton mismatch''
              = (if py_eq mc (sea_binary_mask_at_t_locaiton p) then 0 else 1)
          \<and> count_list (blocks ! n) ''reference_density_profile mismatch''
              = (if py_eq rr (reference_density_profile p) then 0 else 1)
          \<and> length (blocks ! n)
              = count_list (blocks ! n) ''Cell area mismatch''
                + count_list (blocks ! n) ''ocean_depth mismatch''
                + count_list (blocks ! n) ''interior_2d_mask mismatch''
                + count_list (blocks ! n) ''depth_r0_to_ref_surface mismatch''
                + count_list (blocks ! n) ''depth_r0_to_bottom mismatch''
                + count_list (blocks ! n) ''cell_z_size mismatch''
                + count_list (blocks ! n) ''cell_vertical_fraction mismatch''
                + count_list (blocks ! n) ''sea_binary_mask_at_t_locaiton mismatch''
                + count_list (blocks ! n) ''reference_density_profile mismatch''"
    if n: "n < length fs" for n
  proof -
    from each n have "table_findings (static_table (fs ! n) m p lonidx latidx levelidx) = Inr (blocks ! n)"
      by blast
    then obtain a d mi rs rl dz hf mc rr where
      reads: "get2 (rA (fs ! n)) latidx lonidx = Inr a" "get2 (Depth (fs ! n)) latidx lonidx = Inr d"
        "get2 (maskInC (fs ! n)) latidx lonidx = Inr mi" "get2 (rSurfC (fs ! n)) latidx lonidx = Inr rs"
        "get2 (rLowC (fs ! n)) latidx lonidx = Inr rl" "get (drF (fs ! n)) levelidx = Inr dz"
        "get3 (hFacC (fs ! n)) levelidx latidx lonidx = Inr hf"
        "get3 (maskC (fs ! n)) levelidx latidx lonidx = Inr mc" "get (rhoRef (fs ! n)) levelidx = Inr rr"
      and block: "blocks ! n = differs ''Cell area mismatch'' a (cell_area m)
             @ differs ''ocean_depth mismatch'' d (ocean_depth m)
             @ differs ''interior_2d_mask mismatch'' mi (interior_2d_mask m)
             @ differs ''depth_r0_to_ref_surface mismatch'' rs (depth_r0_to_ref_surface m)
             @ differs ''depth_r0_to_bottom mismatch'' rl (depth_r0_to_bottom m)
             @ differs ''cell_z_size mismatch'' dz (cell_z_size p)
             @ differs ''cell_vertical_fraction mismatch'' hf (cell_vertical_fraction p)
             @ differs ''sea_binary_mask_at_t_locaiton mismatch'' mc (sea_binary_mask_at_t_locaiton p)
             @ differs ''reference_density_profile mismatch'' rr (reference_density_profile p)"
      unfolding table_findings_static by blast
    have counts: "count_list (blocks ! n) ''Cell area mismatch'' = (if py_eq a (cell_area m) then 0 else 1)"
      "count_list (blocks ! n) ''ocean_depth mismatch'' = (if py_eq d (ocean_depth m) then 0 else 1)"
      "count_list (blocks ! n) ''interior_2d_mask mismatch''
              = (if py_eq mi (interior_2d_mask m) then 0 else 1)"
      "count_list (blocks ! n) ''depth_r0_to_ref_surface mismatch''
              = (if py_eq rs (depth_r0_to_ref_surface m) then 0 else 1)"
      "count_list (blocks ! n) ''depth_r0_to_bottom mismatch''
              = (if py_eq rl (depth_r0_to_bottom m) then 0 else 1)"
      "count_list (blocks ! n) ''cell_z_size mismatch'' = (if py_eq dz (cell_z_size p) then 0 else 1)"
      "count_list (blocks ! n) ''cell_vertical_fraction mismatch''
              = (if py_eq hf (cell_vertical_fraction p) then 0 else 1)"
      "count_list (blocks ! n) ''sea_binary_mask_at_t_locaiton mismatch''
              = (if py_eq mc (sea_binary_mask_at_t_locaiton p) then 0 else 1)"
      "count_list (blocks ! n) ''reference_density_profile mismatch''
              = (if py_eq rr (reference_density_profile p) then 0 else 1)"
      unfolding block by (simp_all add: differs_def)
    have "length (blocks ! n)
        = (if py_eq a (cell_area m) then 0 else 1) + (if py_eq d (ocean_depth m) then 0 else 1)
          + (if py_eq mi (interior_2d_mask m) then 0 else 1)
          + (if py_eq rs (depth_r0_to_ref_surface m) then 0 else 1)
          + (if py_eq rl (depth_r0_to_bottom m) then 0 else 1)
          + (if py_eq dz (cell_z_size p) then 0 else 1)
          + (if py_eq hf (cell_vertical_fraction p) then 0 else 1)
          + (if py_eq mc (sea_binary_mask_at_t_locaiton p) then 0 else 1)
          + (if py_eq rr (reference_density_profile p) then 0 else 1)"
      unfolding block by (simp add: differs_def)
    with reads counts show ?thesis
      by (intro exI conjI) (assumption | simp only:)+
  qed
  with len log cat show ?thesis
    by blast
qed

theorem static_fields_per_file_witness:
  "static_loop [ex_grid [Fin 1] [] (Fin 4000), ex_grid [Fin 2] [] (Fin 4001)]
       (ex_meta (Fin 4000)) ex_good 1 0 1 ''log''
     = Inr ''logocean_depth mismatch\<newline>Profile ID: p1\<newline>''
   \<and> (\<exists>blocks. length blocks = 2
        \<and> count_list (blocks ! 0) ''ocean_depth mismatch'' = 0
        \<and> count_list (blocks ! 1) ''ocean_depth mismatch'' = 1)"
proof -
  have h: "static_loop [ex_grid [Fin 1] [] (Fin 4000), ex_grid [Fin 2] [] (Fin 4001)]
       (ex_meta (Fin 4000)) ex_good 1 0 1 ''log''
     = Inr ''logocean_depth mismatch\<newline>Profile ID: p1\<newline>''"
    by code_simp
  have d: "get2 (Depth ([ex_grid [Fin 1] [] (Fin 4000), ex_grid [Fin 2] [] (Fin 4001)] ! 0)) 0 1 = Inr (Fin 4000)"
    "get2 (Depth ([ex_grid [Fin 1] [] (Fin 4000), ex_grid [Fin 2] [] (Fin 4001)] ! 1)) 0 1 = Inr (Fin 4001)"
    "py_eq (Fin 4000) (ocean_depth (ex_meta (Fin 4000)))"
    "\<not> py_eq (Fin 4001) (ocean_depth (ex_meta (Fin 4000)))"
    by code_simp+
  from static_fields_per_file [OF h] obtain blocks where
    len: "length blocks = length [ex_grid [Fin 1] [] (Fin 4000), ex_grid [Fin 2] [] (Fin 4001)]"
    and each: "\<forall>n<length [ex_grid [Fin 1] [] (Fin 4000), ex_grid [Fin 2] [] (Fin 4001)].
      \<exists>dd. get2 (Depth ([ex_grid [Fin 1] [] (Fin 4000), ex_grid [Fin 2] [] (Fin 4001)] ! n)) 0 1 = Inr dd
        \<and> count_list (blocks ! n) ''ocean_depth mismatch''
            = (if py_eq dd (ocean_depth (ex_meta (Fin 4000))) then 0 else 1)"
    by blast
  have n0: "(0::nat) < length [ex_grid [Fin 1] [] (Fin 4000), ex_grid [Fin 2] [] (Fin 4001)]"
    and n1: "(1::nat) < length [ex_grid [Fin 1] [] (Fin 4000), ex_grid [Fin 2] [] (Fin 4001)]"
    by simp_all
  from each [rule_format, OF n0] obtain d0 where
    "get2 (Depth ([ex_grid [Fin 1] [] (Fin 4000), ex_grid [Fin 2] [] (Fin 4001)] ! 0)) 0 1 = Inr d0"
    "count_list (blocks ! 0) ''ocean_depth mismatch''
       = (if py_eq d0 (ocean_depth (ex_meta (Fin 4000))) then 0 else 1)"
    by blast
  with d(1,3) have c0: "count_list (blocks ! 0) ''ocean_depth mismatch'' = 0"
    by simp
  from each [rule_format, OF n1] obtain d1 where
    "get2 (Depth ([ex_grid [Fin 1] [] (Fin 4000), ex_grid [Fin 2] [] (Fin 4001)] ! 1)) 0 1 = Inr d1"
    "count_list (blocks ! 1) ''ocean_depth mismatch''
       = (if py_eq d1 (ocean_depth (ex_meta (Fin 4000))) then 0 else 1)"
    by blast
  with d(2,4) have c1: "count_list (blocks ! 1) ''ocean_depth mismatch'' = 1"
    by simp
  from len have "length blocks = 2"
    by simp
  with h c0 c1 show ?thesis
    by blast
qed

section \<open>Determinism of a pass\<close>



end
